theory Spec2Isabelle
  imports Main
begin

section \<open>JavaScript values\<close>

text \<open>
  The collection of \<^verbatim>\<open>src/js/collections.js\<close> stores and compares dynamically typed
  values.  The model keeps the primitive values the code inspects.  Numbers are the
  doubles that are integers, the two infinities and not-a-number; fractions are outside
  the model, and negative zero is identified with zero.  Query parameters and member
  attributes that are objects or arrays are outside the model as well.
\<close>

datatype jsnum = Fin int | PosInf | NegInf | NaN

text \<open>
  The double nearest to an integer.  Up to 53 bits the integer is a double.  A longer
  one keeps its 53 leading bits, rounded to nearest with ties to the even neighbour, and
  a result of 2^1024 or more is an infinity.
\<close>

fun bitlen :: "nat \<Rightarrow> nat" where
  "bitlen n = (if n = 0 then 0 else Suc (bitlen (n div 2)))"

declare bitlen.simps [simp del]

definition round_nat :: "nat \<Rightarrow> nat" where
  "round_nat m =
     (let k = bitlen m in
      if k \<le> 53 then m
      else
        let e = k - 53;
            q = m div 2 ^ e;
            r = m mod 2 ^ e;
            h = 2 ^ (e - 1);
            q' = (if h < r \<or> (r = h \<and> odd q) then q + 1 else q)
        in q' * 2 ^ e)"

definition to_double :: "int \<Rightarrow> jsnum" where
  "to_double n =
     (let m = round_nat (nat \<bar>n\<bar>) in
      if 2 ^ 1024 \<le> m then (if n < 0 then NegInf else PosInf)
      else Fin (if n < 0 then - int m else int m))"

datatype jsval = JUndefined | JNull | JBool bool | JNum jsnum | JStr string

text \<open>
  An object is a finite map from property names to values.  A property that is present
  with the value \<^verbatim>\<open>undefined\<close> is different from an absent one (\<^verbatim>\<open>_.extend\<close> copies it,
  \<^verbatim>\<open>delete\<close> removes it), but reading either one yields \<^verbatim>\<open>undefined\<close>.
\<close>

type_synonym jsobj = "string \<rightharpoonup> jsval"

definition get_prop :: "jsobj \<Rightarrow> string \<Rightarrow> jsval" where
  "get_prop obj k = (case obj k of None \<Rightarrow> JUndefined | Some v \<Rightarrow> v)"

text \<open>\<^verbatim>\<open>!x\<close> is \<open>\<not> truthy x\<close>.\<close>

fun truthy :: "jsval \<Rightarrow> bool" where
  "truthy JUndefined = False"
| "truthy JNull = False"
| "truthy (JBool b) = b"
| "truthy (JNum (Fin n)) = (n \<noteq> 0)"
| "truthy (JNum PosInf) = True"
| "truthy (JNum NegInf) = True"
| "truthy (JNum NaN) = False"
| "truthy (JStr s) = (s \<noteq> [])"

text \<open>
  ToNumber.  The conversion of a string to a number is a primitive of the language whose
  results include numbers outside the model, so it is a parameter \<open>s2n\<close>.
\<close>

fun to_number :: "(string \<Rightarrow> jsnum) \<Rightarrow> jsval \<Rightarrow> jsnum" where
  "to_number s2n JUndefined = NaN"
| "to_number s2n JNull = Fin 0"
| "to_number s2n (JBool b) = Fin (if b then 1 else 0)"
| "to_number s2n (JNum n) = n"
| "to_number s2n (JStr s) = s2n s"

text \<open>The sum of two doubles is the double nearest to the exact sum; the difference is
  the sum with the negated number, and negation is exact.\<close>

fun num_add :: "jsnum \<Rightarrow> jsnum \<Rightarrow> jsnum" where
  "num_add NaN b = NaN"
| "num_add a NaN = NaN"
| "num_add (Fin a) (Fin b) = to_double (a + b)"
| "num_add PosInf NegInf = NaN"
| "num_add NegInf PosInf = NaN"
| "num_add PosInf b = PosInf"
| "num_add a PosInf = PosInf"
| "num_add NegInf b = NegInf"
| "num_add a NegInf = NegInf"

fun num_neg :: "jsnum \<Rightarrow> jsnum" where
  "num_neg (Fin a) = Fin (- a)"
| "num_neg PosInf = NegInf"
| "num_neg NegInf = PosInf"
| "num_neg NaN = NaN"

definition num_sub :: "jsnum \<Rightarrow> jsnum \<Rightarrow> jsnum" where
  "num_sub a b = num_add a (num_neg b)"

text \<open>Comparisons with not-a-number are false.\<close>

fun num_lt :: "jsnum \<Rightarrow> jsnum \<Rightarrow> bool" where
  "num_lt NaN b = False"
| "num_lt a NaN = False"
| "num_lt (Fin a) (Fin b) = (a < b)"
| "num_lt a NegInf = False"
| "num_lt PosInf b = False"
| "num_lt NegInf b = True"
| "num_lt a PosInf = True"

definition num_le :: "jsnum \<Rightarrow> jsnum \<Rightarrow> bool" where
  "num_le a b = (a \<noteq> NaN \<and> b \<noteq> NaN \<and> (a = b \<or> num_lt a b))"

text \<open>\<^verbatim>\<open>a - b\<close> on arbitrary values.\<close>

definition js_sub :: "(string \<Rightarrow> jsnum) \<Rightarrow> jsval \<Rightarrow> jsval \<Rightarrow> jsnum" where
  "js_sub s2n a b = num_sub (to_number s2n a) (to_number s2n b)"

section \<open>Strings and numbers\<close>

text \<open>
  A string is a list of code units below 256: the range of the code units of an HTTP
  header value as \<^verbatim>\<open>getResponseHeader\<close> returns it.
\<close>

definition is_digit :: "char \<Rightarrow> bool" where
  "is_digit c = (48 \<le> (of_char c :: nat) \<and> (of_char c :: nat) \<le> 57)"

definition digit_val :: "char \<Rightarrow> nat" where
  "digit_val c = of_char c - 48"

text \<open>Tab, line feed, vertical tab, form feed, carriage return, space, no-break space.\<close>

definition is_ws :: "char \<Rightarrow> bool" where
  "is_ws c = ((of_char c :: nat) \<in> {9, 10, 11, 12, 13, 32, 160})"

definition digits_value :: "string \<Rightarrow> nat" where
  "digits_value z = foldl (\<lambda>acc c. 10 * acc + digit_val c) 0 z"

text \<open>
  \<^verbatim>\<open>parseInt( s, 10 )\<close>: leading white space is dropped, one sign is read, and the
  longest run of decimal digits that follows is read as a number.  When that run is empty
  the result is not-a-number.  Whatever follows the digits is ignored.  The result is a
  double: the one nearest to the integer the digits denote (beyond 20 digits the language
  lets an implementation round earlier).
\<close>

definition parseInt10 :: "string \<Rightarrow> jsnum" where
  "parseInt10 input =
     (let s = dropWhile is_ws input;
          neg = (s \<noteq> [] \<and> hd s = CHR ''-'');
          s' = (if s \<noteq> [] \<and> (hd s = CHR ''+'' \<or> hd s = CHR ''-'') then tl s else s);
          z = takeWhile is_digit s'
      in if z = [] then NaN else to_double ((if neg then - 1 else 1) * int (digits_value z)))"

text \<open>
  \<^verbatim>\<open>getResponseHeader\<close> returns a string, or \<^verbatim>\<open>null\<close> when the response has no such
  header; \<^verbatim>\<open>parseInt\<close> converts its argument to a string first.
\<close>

definition header_string :: "string option \<Rightarrow> string" where
  "header_string h = (case h of None \<Rightarrow> ''null'' | Some s \<Rightarrow> s)"

text \<open>The decimal numeral of a natural number.\<close>

fun dec :: "nat \<Rightarrow> string" where
  "dec n = (if n < 10 then [char_of (48 + n)] else dec (n div 10) @ [char_of (48 + n mod 10)])"

declare dec.simps [simp del]





section \<open>The collection\<close>

text \<open>
  \<^verbatim>\<open>this.state\<close>: the stored query parameters and the three pagination fields, each
  \<^verbatim>\<open>null\<close> (\<open>None\<close>) or a number.  Every assignment of the source to one of the three
  fields stores \<^verbatim>\<open>null\<close>, the result of a subtraction, of \<^verbatim>\<open>parseInt\<close> or of an
  increment, or the literal 1.
\<close>

record pagination_state =
  data :: jsobj
  currentPage :: "jsnum option"
  totalPages :: "jsnum option"
  totalObjects :: "jsnum option"

text \<open>Caller-supplied functions are opaque references.\<close>

type_synonym fn_ref = nat

datatype comparator_ref = DefaultComparator | CustomComparator fn_ref

text \<open>\<open>Resort\<close> is the closure \<^verbatim>\<open>function() { collection.sort(); }\<close>.\<close>

datatype handler = Resort | OtherHandler fn_ref

type_synonym member = jsobj

record collection =
  state :: pagination_state
  parent :: jsval
  initializedSortOnChange :: bool
  comparator :: "comparator_ref option"
  subscriptions :: "(string \<times> handler) list"
  models :: "member list"

subsection \<open>Errors and completions\<close>

text \<open>\<open>Error m\<close> is \<^verbatim>\<open>new Error( m )\<close>; \<open>TypeError\<close> is the error of calling a method
  on \<^verbatim>\<open>null\<close> or \<^verbatim>\<open>undefined\<close>.\<close>

datatype error = Error string | TypeError

datatype 'a completion = Returned 'a | Thrown error

subsection \<open>_initSortOnChange\<close>

text \<open>
  \<^verbatim>\<open>collection.sort()\<close> belongs to Backbone.  It is the parameter \<open>srt\<close>: from the
  collection it gives the error that a comparison raised, or the members in their new order.
  \<^verbatim>\<open>collection.on\<close> appends to the subscriptions.
\<close>

definition initSortOnChange ::
  "(collection \<Rightarrow> error + member list) \<Rightarrow> collection \<Rightarrow> bool completion \<times> collection" where
  "initSortOnChange srt c =
     (if initializedSortOnChange c \<or> \<not> truthy (get_prop (data (state c)) ''orderby'')
      then (Returned False, c)
      else
        let c1 = (if comparator c = None then c\<lparr>comparator := Some DefaultComparator\<rparr> else c);
            c2 = c1\<lparr>subscriptions := subscriptions c1 @ [(''sync change'', Resort)]\<rparr>
        in case srt c2 of
             Inl e \<Rightarrow> (Thrown e, c2)
           | Inr ms \<Rightarrow> (Returned True, c2\<lparr>models := ms, initializedSortOnChange := True\<rparr>))"

subsection \<open>defaultComparator\<close>




subsection \<open>initialize\<close>

text \<open>\<^verbatim>\<open>_.extend( dst, src )\<close> copies every property of \<open>src\<close> into \<open>dst\<close>; a source that
  is not an object has none.\<close>

definition extend_obj :: "jsobj \<Rightarrow> jsobj option \<Rightarrow> jsobj" where
  "extend_obj dst src = (case src of None \<Rightarrow> dst | Some s \<Rightarrow> dst ++ s)"

record init_options =
  init_parent :: jsval
  init_data :: "jsobj option"

text \<open>
  Backbone's constructor calls \<^verbatim>\<open>initialize( models, options )\<close> on the collection it
  has set up, here \<open>c\<close>.  \<open>None\<close> is an undefined \<^verbatim>\<open>options\<close>.
\<close>

definition initialize ::
  "(collection \<Rightarrow> error + member list) \<Rightarrow> collection \<Rightarrow> member list \<Rightarrow>
   init_options option \<Rightarrow> unit completion \<times> collection" where
  "initialize srt c ms options =
     (let c1 = c\<lparr>state := \<lparr>data = Map.empty, currentPage = None, totalPages = None,
                             totalObjects = None\<rparr>\<rparr>;
          c2 = (case options of
                  None \<Rightarrow> c1\<lparr>parent := JStr []\<rparr>
                | Some opts \<Rightarrow>
                    c1\<lparr>parent := init_parent opts,
                       state := (state c1)\<lparr>data := extend_obj (data (state c1)) (init_data opts)\<rparr>\<rparr>)
      in case initSortOnChange srt c2 of
           (Thrown e, c3) \<Rightarrow> (Thrown e, c3)
         | (Returned r, c3) \<Rightarrow> (Returned (), c3))"

subsection \<open>sync\<close>

text \<open>
  The options of \<^verbatim>\<open>sync\<close> and of \<^verbatim>\<open>more\<close>.  \<open>data_opt = None\<close> is an absent (or
  falsy) \<^verbatim>\<open>options.data\<close>; the source documents \<^verbatim>\<open>options.data\<close> as an object.
\<close>

record sync_options =
  data_opt :: "jsobj option"
  success_opt :: "fn_ref option"
  beforeSend_opt :: "fn_ref option"

definition no_options :: sync_options where
  "no_options = \<lparr>data_opt = None, success_opt = None, beforeSend_opt = None\<rparr>"

text \<open>\<^verbatim>\<open>options = options || {}\<close> and \<^verbatim>\<open>options.data || {}\<close>.\<close>

definition opts_of :: "sync_options option \<Rightarrow> sync_options" where
  "opts_of options = (case options of None \<Rightarrow> no_options | Some x \<Rightarrow> x)"

definition data_of :: "sync_options \<Rightarrow> jsobj" where
  "data_of opts = (case data_opt opts of None \<Rightarrow> Map.empty | Some x \<Rightarrow> x)"

text \<open>
  What \<^verbatim>\<open>sync\<close> hands to \<^verbatim>\<open>Backbone.sync\<close>.  \<open>NonceBeforeSend n f\<close> is the function that
  sets the header \<^verbatim>\<open>X-WP-Nonce\<close> to \<open>n\<close> and then calls \<open>f\<close>, if any.  \<open>WrappedSuccess f\<close>
  is the function that updates the pagination state and then calls \<open>f\<close>, if any
  (\<open>wrapped_success\<close> below).
\<close>

datatype before_send = CallerBeforeSend fn_ref | NonceBeforeSend string "fn_ref option"

datatype success_handler = CallerSuccess fn_ref | WrappedSuccess "fn_ref option"

record request =
  req_method :: string
  req_data :: "jsobj option"
  req_success :: "success_handler option"
  req_beforeSend :: "before_send option"

text \<open>The arguments of a success callback; \<open>xhr\<close> is \<^verbatim>\<open>request.getResponseHeader\<close>.\<close>

record success_args =
  resp_data :: jsval
  textStatus :: string
  xhr :: "string \<Rightarrow> string option"

text \<open>
  The function \<^verbatim>\<open>sync\<close> installs as \<^verbatim>\<open>options.success\<close>.  Its result is the call of the
  caller's callback it ends with, if there is one, and the collection at that call.
\<close>

definition wrapped_success ::
  "fn_ref option \<Rightarrow> success_args \<Rightarrow> collection \<Rightarrow> (fn_ref \<times> success_args) option \<times> collection" where
  "wrapped_success success args c =
     (let st1 = (state c)\<lparr>totalPages :=
                    Some (parseInt10 (header_string (xhr args ''x-wp-totalpages''))),
                  totalObjects :=
                    Some (parseInt10 (header_string (xhr args ''x-wp-total'')))\<rparr>;
          st2 = (case currentPage st1 of
                   None \<Rightarrow> st1\<lparr>currentPage := Some (Fin 1)\<rparr>
                 | Some cp \<Rightarrow> st1\<lparr>currentPage := Some (num_add cp (Fin 1))\<rparr>)
      in (case success of None \<Rightarrow> None | Some f \<Rightarrow> Some (f, args), c\<lparr>state := st2\<rparr>))"

text \<open>
  \<open>nonce\<close> is \<^verbatim>\<open>wpApiSettings.nonce\<close>, \<open>None\<close> when undefined.  \<open>None\<close> for \<open>options\<close> is
  an absent \<^verbatim>\<open>options\<close>.  The model argument of the source is only passed on and is left
  out.  An error of \<^verbatim>\<open>_initSortOnChange\<close> leaves \<^verbatim>\<open>sync\<close> before the request is made.
\<close>

definition sync ::
  "(string \<Rightarrow> jsnum) \<Rightarrow> string option \<Rightarrow> (collection \<Rightarrow> error + member list) \<Rightarrow>
   string \<Rightarrow> sync_options option \<Rightarrow> collection \<Rightarrow> request completion \<times> collection" where
  "sync s2n nonce srt meth options c =
     (let opts = opts_of options;
          bs = (case nonce of
                  None \<Rightarrow> map_option CallerBeforeSend (beforeSend_opt opts)
                | Some n \<Rightarrow> Some (NonceBeforeSend n (beforeSend_opt opts)))
      in if meth = ''read'' then
           let d = data_of opts;
               st1 = (case data_opt opts of
                        None \<Rightarrow> (state c)\<lparr>data := Map.empty\<rparr>
                      | Some x \<Rightarrow> (state c)\<lparr>data := x(''page'' := None)\<rparr>);
               st2 = (if get_prop d ''page'' = JUndefined
                      then st1\<lparr>currentPage := None, totalPages := None, totalObjects := None\<rparr>
                      else st1\<lparr>currentPage :=
                                 Some (js_sub s2n (get_prop d ''page'') (JNum (Fin 1)))\<rparr>)
           in (case initSortOnChange srt (c\<lparr>state := st2\<rparr>) of
                 (Thrown e, c') \<Rightarrow> (Thrown e, c')
               | (Returned r, c') \<Rightarrow>
                   (Returned \<lparr>req_method = meth, req_data = Some d,
                              req_success = Some (WrappedSuccess (success_opt opts)),
                              req_beforeSend = bs\<rparr>, c'))
         else (Returned \<lparr>req_method = meth, req_data = data_opt opts,
                         req_success = map_option CallerSuccess (success_opt opts),
                         req_beforeSend = bs\<rparr>, c))"

subsection \<open>hasMore\<close>

definition hasMore :: "collection \<Rightarrow> bool option" where
  "hasMore c =
     (case totalPages (state c) of
        None \<Rightarrow> None
      | Some tp \<Rightarrow>
          (case totalObjects (state c) of
             None \<Rightarrow> None
           | Some tobj \<Rightarrow>
               (case currentPage (state c) of
                  None \<Rightarrow> None
                | Some cp \<Rightarrow> Some (num_lt cp tp))))"

subsection \<open>more\<close>

text \<open>
  \<^verbatim>\<open>this.fetch\<close> belongs to Backbone: \<open>Fetch opts\<close> is the call \<^verbatim>\<open>this.fetch( opts )\<close>
  whose result \<^verbatim>\<open>more\<close> returns, \<open>ReturnedFalse\<close> the return of \<^verbatim>\<open>false\<close> with no call.
  The source writes the merged data into the caller's own \<^verbatim>\<open>options.data\<close> object; the
  model gives the merged data as a value.
\<close>

datatype more_result = ReturnedFalse | Fetch sync_options

text \<open>The caller's data after \<^verbatim>\<open>_.extend( options.data, this.state.data )\<close>.\<close>

definition merged_data :: "sync_options option \<Rightarrow> collection \<Rightarrow> jsobj" where
  "merged_data options c = extend_obj (data_of (opts_of options)) (Some (data (state c)))"

definition more :: "sync_options option \<Rightarrow> collection \<Rightarrow> more_result" where
  "more options c =
     (let opts = opts_of options;
          d = merged_data options c
      in if get_prop d ''page'' = JUndefined then
           (if hasMore c \<noteq> Some True then ReturnedFalse
            else
              let next = (case currentPage (state c) of
                            None \<Rightarrow> Fin 2
                          | Some cp \<Rightarrow> if num_le cp (Fin 1) then Fin 2 else num_add cp (Fin 1))
              in Fetch (opts\<lparr>data_opt := Some (d(''page'' \<mapsto> JNum next))\<rparr>))
         else Fetch (opts\<lparr>data_opt := Some d\<rparr>))"

section \<open>Example values\<close>

text \<open>A collection as Backbone's constructor hands it to \<^verbatim>\<open>initialize\<close>, with nothing stored.\<close>

definition fresh :: collection where
  "fresh = \<lparr>state = \<lparr>data = Map.empty, currentPage = None, totalPages = None, totalObjects = None\<rparr>,
            parent = JUndefined, initializedSortOnChange = False, comparator = None,
            subscriptions = [], models = []\<rparr>"

text \<open>An instance of the parameter \<open>srt\<close>: a sort that finds the members in order.\<close>

definition keep_order :: "collection \<Rightarrow> error + member list" where
  "keep_order c = Inr (models c)"

text \<open>The state after a successful read of page 3 of 5, with 97 objects.\<close>

definition page3 :: collection where
  "page3 = fresh\<lparr>state := \<lparr>data = Map.empty, currentPage = Some (Fin 3), totalPages = Some (Fin 5),
                             totalObjects = Some (Fin 97)\<rparr>\<rparr>"

definition headers_5_97 :: "string \<Rightarrow> string option" where
  "headers_5_97 name = (if name = ''x-wp-totalpages'' then Some ''5''
                        else if name = ''x-wp-total'' then Some ''97'' else None)"

text \<open>An instance of the parameter \<open>s2n\<close>: it reads the strings of decimal digits
  (the empty string is 0) and takes every other string to not-a-number.\<close>

definition example_s2n :: "string \<Rightarrow> jsnum" where
  "example_s2n s = (if list_all is_digit s then to_double (int (digits_value s)) else NaN)"

definition page3_options :: sync_options where
  "page3_options = \<lparr>data_opt = Some [''orderby'' \<mapsto> JStr ''date'', ''page'' \<mapsto> JNum (Fin 3)],
                     success_opt = Some 7, beforeSend_opt = None\<rparr>"

definition undefined_page_options :: sync_options where
  "undefined_page_options = \<lparr>data_opt = Some [''page'' \<mapsto> JUndefined],
                     success_opt = None, beforeSend_opt = None\<rparr>"

definition response_5_97 :: success_args where
  "response_5_97 = \<lparr>resp_data = JNull, textStatus = ''success'', xhr = headers_5_97\<rparr>"

text \<open>States after a successful read of page 1 and of page 5, the last one.\<close>

definition page1 :: collection where
  "page1 = fresh\<lparr>state := \<lparr>data = [''search'' \<mapsto> JStr ''tea''], currentPage = Some (Fin 1),
                             totalPages = Some (Fin 5), totalObjects = Some (Fin 97)\<rparr>\<rparr>"

definition page5 :: collection where
  "page5 = fresh\<lparr>state := \<lparr>data = Map.empty, currentPage = Some (Fin 5),
                             totalPages = Some (Fin 5), totalObjects = Some (Fin 97)\<rparr>\<rparr>"

text \<open>Options of calls.\<close>

definition search_options :: sync_options where
  "search_options = \<lparr>data_opt = Some [''search'' \<mapsto> JStr ''tea''], success_opt = Some 7,
                      beforeSend_opt = None\<rparr>"

definition page5_options :: sync_options where
  "page5_options = \<lparr>data_opt = Some [''page'' \<mapsto> JNum (Fin 5)], success_opt = None,
                     beforeSend_opt = None\<rparr>"

definition page2_init_options :: init_options where
  "page2_init_options = \<lparr>init_parent = JUndefined,
                           init_data = Some [''search'' \<mapsto> JStr ''tea'', ''page'' \<mapsto> JNum (Fin 2)]\<rparr>"

text \<open>Collections whose stored parameters ask for an order, before and after
  \<^verbatim>\<open>_initSortOnChange\<close>, and one whose \<^verbatim>\<open>orderby\<close> is the empty string.\<close>

definition by_date :: collection where
  "by_date = fresh\<lparr>state := \<lparr>data = [''orderby'' \<mapsto> JStr ''date'', ''order'' \<mapsto> JStr ''desc''],
                               currentPage = None, totalPages = None, totalObjects = None\<rparr>\<rparr>"

definition by_date_armed :: collection where
  "by_date_armed = by_date\<lparr>comparator := Some DefaultComparator,
                           subscriptions := [(''sync change'', Resort)],
                           initializedSortOnChange := True\<rparr>"









text \<open>Responses: one without \<^verbatim>\<open>x-wp-totalpages\<close> and with a word for \<^verbatim>\<open>x-wp-total\<close>, and
  one whose \<^verbatim>\<open>x-wp-totalpages\<close> starts with a digit and goes on with letters.\<close>

definition headers_bad :: "string \<Rightarrow> string option" where
  "headers_bad name = (if name = ''x-wp-total'' then Some ''many'' else None)"

definition response_bad :: success_args where
  "response_bad = \<lparr>resp_data = JNull, textStatus = ''success'', xhr = headers_bad\<rparr>"

definition headers_5abc :: "string \<Rightarrow> string option" where
  "headers_5abc name = (if name = ''x-wp-totalpages'' then Some ''5abc''
                        else if name = ''x-wp-total'' then Some ''97'' else None)"

definition response_5abc :: success_args where
  "response_5abc = \<lparr>resp_data = JNull, textStatus = ''success'', xhr = headers_5abc\<rparr>"

section \<open>Notions of the statements\<close>

text \<open>A string has a numeric prefix when, after leading white space and one optional sign, it
  goes on with a decimal digit.\<close>

definition numeric_prefix :: "string \<Rightarrow> bool" where
  "numeric_prefix input =
     (let s = dropWhile is_ws input;
          s' = (if s \<noteq> [] \<and> (hd s = CHR ''+'' \<or> hd s = CHR ''-'') then tl s else s)
      in s' \<noteq> [] \<and> is_digit (hd s'))"

section \<open>Properties\<close>

subsection \<open>Doubles\<close>

lemma bitlen_le: "m < 2 ^ k \<Longrightarrow> bitlen m \<le> k"
proof (induction k arbitrary: m)
  case 0
  then show ?case by (simp add: bitlen.simps [of 0])
next
  case (Suc k)
  show ?case
  proof (cases "m = 0")
    case True
    then show ?thesis by (simp add: bitlen.simps [of 0])
  next
    case False
    from Suc.prems have "m div 2 < 2 ^ k" by simp
    then have "bitlen (m div 2) \<le> k" by (rule Suc.IH)
    with False show ?thesis by (simp add: bitlen.simps [of m])
  qed
qed

lemma round_nat_small: "m < 2 ^ 53 \<Longrightarrow> round_nat m = m"
  using bitlen_le [of m 53] by (simp add: round_nat_def)

lemma bitlen_2_53: "bitlen 9007199254740992 = 54"
  by (simp add: bitlen.simps)

lemma round_nat_2_53: "round_nat (2 ^ 53) = 2 ^ 53"
  using bitlen_2_53 by (simp add: round_nat_def Let_def)

lemma round_nat_exact: "m \<le> 2 ^ 53 \<Longrightarrow> round_nat m = m"
  using round_nat_small [of m] round_nat_2_53 by (cases "m = 2 ^ 53") simp_all

lemma to_double_exact: "\<bar>n\<bar> \<le> 2 ^ 53 \<Longrightarrow> to_double n = Fin n"
proof -
  assume a: "\<bar>n\<bar> \<le> 2 ^ 53"
  then have "nat \<bar>n\<bar> \<le> 2 ^ 53" by (simp add: nat_le_iff)
  then have r: "round_nat (nat \<bar>n\<bar>) = nat \<bar>n\<bar>" by (rule round_nat_exact)
  have "nat \<bar>n\<bar> < (2::nat) ^ 1024"
    using \<open>nat \<bar>n\<bar> \<le> 2 ^ 53\<close> power_strict_increasing [of 53 1024 "2::nat"] by simp
  with r show ?thesis by (cases "n < 0") (simp_all add: to_double_def Let_def)
qed

lemma to_double_not_NaN: "to_double n \<noteq> NaN"
  by (simp add: to_double_def Let_def)

lemma num_add_exact: "\<bar>a + b\<bar> \<le> 2 ^ 53 \<Longrightarrow> num_add (Fin a) (Fin b) = Fin (a + b)"
  by (simp add: to_double_exact)

lemma num_sub_exact: "\<bar>a - b\<bar> \<le> 2 ^ 53 \<Longrightarrow> num_sub (Fin a) (Fin b) = Fin (a - b)"
  by (simp add: num_sub_def to_double_exact)

lemma num_le_Fin [simp]: "num_le (Fin a) (Fin b) = (a \<le> b)"
  by (auto simp: num_le_def)

subsection \<open>Decimal numerals and parseInt\<close>

lemma is_digit_char_of: "(d::nat) < 10 \<Longrightarrow> is_digit (char_of (48 + d))"
  by (simp add: is_digit_def)

lemma digit_val_char_of: "(d::nat) < 10 \<Longrightarrow> digit_val (char_of (48 + d)) = d"
  by (simp add: digit_val_def)

lemma dec_digits: "c \<in> set (dec n) \<Longrightarrow> is_digit c"
proof (induction n arbitrary: c rule: dec.induct)
  case (1 n)
  show ?case
  proof (cases "n < 10")
    case True
    with "1.prems" show ?thesis by (simp add: dec.simps [of n] is_digit_char_of)
  next
    case False
    with "1.prems" "1.IH" show ?thesis
      by (auto simp: dec.simps [of n] is_digit_char_of)
  qed
qed

lemma dec_nonempty: "dec n \<noteq> []"
  by (subst dec.simps) simp

lemma digits_value_snoc: "digits_value (z @ [c]) = 10 * digits_value z + digit_val c"
  by (simp add: digits_value_def)

lemma digits_value_dec: "digits_value (dec n) = n"
proof (induction n rule: dec.induct)
  case (1 n)
  show ?case
  proof (cases "n < 10")
    case True
    then show ?thesis by (simp add: dec.simps [of n] digits_value_def digit_val_char_of)
  next
    case False
    with "1.IH" show ?thesis
      by (simp add: dec.simps [of n] digits_value_snoc digit_val_char_of)
  qed
qed

lemma digit_not_ws: "is_digit c \<Longrightarrow> \<not> is_ws c"
  by (auto simp: is_digit_def is_ws_def)

lemma digit_not_sign: "is_digit c \<Longrightarrow> c \<noteq> CHR ''+'' \<and> c \<noteq> CHR ''-''"
  by (auto simp: is_digit_def)

lemma parseInt10_digits:
  assumes "z \<noteq> []" and "\<forall>c \<in> set z. is_digit c"
  shows "parseInt10 z = to_double (int (digits_value z))"
proof -
  from assms obtain c r where z: "z = c # r" by (cases z) auto
  with assms have c: "is_digit c" by simp
  have dw: "dropWhile is_ws z = z" using z c digit_not_ws by simp
  have tw: "takeWhile is_digit z = z" using assms(2) by simp
  show ?thesis
    using dw tw z digit_not_sign [OF c] by (simp add: parseInt10_def Let_def)
qed

lemma parseInt10_dec: "parseInt10 (dec n) = to_double (int n)"
  using parseInt10_digits [of "dec n"] dec_nonempty dec_digits digits_value_dec by simp

lemma parseInt10_dec_exact: "n \<le> 2 ^ 53 \<Longrightarrow> parseInt10 (dec n) = Fin (int n)"
  by (simp add: parseInt10_dec to_double_exact)

text \<open>Beyond 2^53 the stored number is the nearest double, not the numeral's own value.\<close>

lemma bitlen_2_53_1: "bitlen 9007199254740993 = 54"
  by (simp add: bitlen.simps)

lemma to_double_2_53_1: "to_double 9007199254740993 = Fin 9007199254740992"
  using bitlen_2_53_1 by (simp add: to_double_def round_nat_def Let_def)

theorem parseInt10_rounds: "parseInt10 ''9007199254740993'' = Fin 9007199254740992"
  using to_double_2_53_1
  by (simp add: parseInt10_def is_ws_def is_digit_def digits_value_def digit_val_def)


lemma dec_examples: "dec 5 = ''5''" "dec 97 = ''97''"
  by code_simp+

subsection \<open>The state after sync and after the success handler\<close>

lemma opts_of_simps [simp]: "opts_of None = no_options" "opts_of (Some x) = x"
  by (simp_all add: opts_of_def)

lemma data_of_simps:
  "data_opt opts = None \<Longrightarrow> data_of opts = Map.empty"
  "data_opt opts = Some d \<Longrightarrow> data_of opts = d"
  by (simp_all add: data_of_def)

lemma initSortOnChange_state:
  "initSortOnChange srt c = (r, c') \<Longrightarrow> state c' = state c"
  by (auto simp: initSortOnChange_def Let_def split: if_splits sum.splits)

lemma sync_read_state:
  "state (snd (sync s2n nonce srt ''read'' options c)) =
     (let opts = opts_of options;
          d = data_of opts;
          st1 = (state c)\<lparr>data := d(''page'' := None)\<rparr>
      in if get_prop d ''page'' = JUndefined
         then st1\<lparr>currentPage := None, totalPages := None, totalObjects := None\<rparr>
         else st1\<lparr>currentPage := Some (js_sub s2n (get_prop d ''page'') (JNum (Fin 1)))\<rparr>)"
  by (auto simp: sync_def Let_def data_of_def split: prod.splits completion.splits option.splits
           dest: initSortOnChange_state)

lemma sync_read_request:
  "fst (sync s2n nonce srt ''read'' options c) = Returned req \<Longrightarrow>
     req_success req = Some (WrappedSuccess (success_opt (opts_of options))) \<and>
     req_data req = Some (data_of (opts_of options))"
  by (auto simp: sync_def Let_def split: prod.splits completion.splits option.splits)

lemma wrapped_success_state:
  "state (snd (wrapped_success cb args c)) =
     (state c)\<lparr>totalPages := Some (parseInt10 (header_string (xhr args ''x-wp-totalpages''))),
               totalObjects := Some (parseInt10 (header_string (xhr args ''x-wp-total''))),
               currentPage := Some (case currentPage (state c) of None \<Rightarrow> Fin 1 | Some v \<Rightarrow> num_add v (Fin 1))\<rparr>"
  by (simp add: wrapped_success_def Let_def split: option.splits)

lemma wrapped_success_call:
  "fst (wrapped_success cb args c) = (case cb of None \<Rightarrow> None | Some f \<Rightarrow> Some (f, args))"
  by (simp add: wrapped_success_def Let_def)

lemma takeWhile_empty_iff: "takeWhile P xs = [] \<longleftrightarrow> xs = [] \<or> \<not> P (hd xs)"
  by (cases xs) auto

lemma parseInt10_NaN_iff: "parseInt10 s = NaN \<longleftrightarrow> \<not> numeric_prefix s"
  by (auto simp: parseInt10_def numeric_prefix_def Let_def takeWhile_empty_iff to_double_not_NaN)

lemma numeric_prefix_null: "\<not> numeric_prefix ''null''"
  by (simp add: numeric_prefix_def is_ws_def is_digit_def)

lemma more_no_page:
  assumes "merged_data options c ''page'' = None"
  shows "more options c =
          (if hasMore c \<noteq> Some True then ReturnedFalse
           else Fetch ((opts_of options)\<lparr>data_opt := Some ((merged_data options c)(''page'' \<mapsto>
                   JNum (case currentPage (state c) of None \<Rightarrow> Fin 2
                         | Some cp \<Rightarrow> if num_le cp (Fin 1) then Fin 2 else num_add cp (Fin 1))))\<rparr>))"
  using assms by (simp add: more_def Let_def get_prop_def)

lemma hasMore_True:
  "hasMore c = Some True \<Longrightarrow> \<exists>cp. currentPage (state c) = Some cp"
  by (simp add: hasMore_def split: option.splits)


subsection \<open>The claims\<close>

text \<open>
  C1, as amended.  Take a read whose \<^verbatim>\<open>options.data\<close> has a page key with value \<open>p\<close>.
  When \<open>p\<close> is not \<^verbatim>\<open>undefined\<close>, \<^verbatim>\<open>currentPage\<close> is \<^verbatim>\<open>p - 1\<close> when \<^verbatim>\<open>sync\<close> is left,
  whether the request was made or \<^verbatim>\<open>_initSortOnChange\<close> raised; for an integer \<open>n\<close> below
  2^53 in size that is \<open>n - 1\<close>.  When \<open>p\<close> is \<^verbatim>\<open>undefined\<close>, the three fields are reset to
  \<^verbatim>\<open>null\<close> as for a read without a page key.  The request carries the wrapped success
  handler and the caller's data with its page key.  When the handler runs on a collection
  whose \<^verbatim>\<open>currentPage\<close> is a number \<open>v\<close>, with the headers \<^verbatim>\<open>x-wp-totalpages\<close> and
  \<^verbatim>\<open>x-wp-total\<close> the decimal numerals of \<open>tp\<close> and \<open>tobj\<close>, both at most 2^53, it leaves
  \<^verbatim>\<open>currentPage = v + 1\<close> (the sum of the language; \<open>m + 1\<close> for an integer \<open>m\<close> below 2^53 in
  size), \<^verbatim>\<open>totalPages = tp\<close> and \<^verbatim>\<open>totalObjects = tobj\<close>.
\<close>

theorem sync_read_page:
  assumes "data_opt opts = Some d" and "d ''page'' = Some p"
  shows "(p \<noteq> JUndefined \<longrightarrow>
            currentPage (state (snd (sync s2n nonce srt ''read'' (Some opts) c)))
              = Some (js_sub s2n p (JNum (Fin 1)))) \<and>
         (p = JNum (Fin n) \<and> \<bar>n\<bar> < 2 ^ 53 \<longrightarrow>
            currentPage (state (snd (sync s2n nonce srt ''read'' (Some opts) c)))
              = Some (Fin (n - 1))) \<and>
         (p = JUndefined \<longrightarrow>
            currentPage (state (snd (sync s2n nonce srt ''read'' (Some opts) c))) = None \<and>
            totalPages (state (snd (sync s2n nonce srt ''read'' (Some opts) c))) = None \<and>
            totalObjects (state (snd (sync s2n nonce srt ''read'' (Some opts) c))) = None) \<and>
         (fst (sync s2n nonce srt ''read'' (Some opts) c) = Returned req \<longrightarrow>
            req_success req = Some (WrappedSuccess (success_opt opts)) \<and> req_data req = Some d) \<and>
         (currentPage (state c') = Some v \<and>
          xhr args ''x-wp-totalpages'' = Some (dec tp) \<and> tp \<le> 2 ^ 53 \<and>
          xhr args ''x-wp-total'' = Some (dec tobj) \<and> tobj \<le> 2 ^ 53 \<longrightarrow>
            currentPage (state (snd (wrapped_success (success_opt opts) args c')))
              = Some (num_add v (Fin 1)) \<and>
            totalPages (state (snd (wrapped_success (success_opt opts) args c')))
              = Some (Fin (int tp)) \<and>
            totalObjects (state (snd (wrapped_success (success_opt opts) args c')))
              = Some (Fin (int tobj))) \<and>
         (currentPage (state c') = Some (Fin m) \<and> \<bar>m\<bar> < 2 ^ 53 \<longrightarrow>
            currentPage (state (snd (wrapped_success (success_opt opts) args c')))
              = Some (Fin (m + 1)))"
proof -
  let ?c1 = "snd (sync s2n nonce srt ''read'' (Some opts) c)"
  have pg: "get_prop d ''page'' = p" using assms(2) by (simp add: get_prop_def)
  have a: "p \<noteq> JUndefined \<longrightarrow> currentPage (state ?c1) = Some (js_sub s2n p (JNum (Fin 1)))"
    using assms pg by (simp add: sync_read_state Let_def data_of_simps)
  have b: "p = JNum (Fin n) \<and> \<bar>n\<bar> < 2 ^ 53 \<longrightarrow> currentPage (state ?c1) = Some (Fin (n - 1))"
    using a by (auto simp: js_sub_def num_sub_def to_double_exact)
  have u: "p = JUndefined \<longrightarrow>
             currentPage (state ?c1) = None \<and> totalPages (state ?c1) = None \<and>
             totalObjects (state ?c1) = None"
    using assms pg by (simp add: sync_read_state Let_def data_of_simps)
  have r: "fst (sync s2n nonce srt ''read'' (Some opts) c) = Returned req \<longrightarrow>
            req_success req = Some (WrappedSuccess (success_opt opts)) \<and> req_data req = Some d"
    using sync_read_request [of s2n nonce srt "Some opts" c req] assms(1)
    by (simp add: data_of_simps)
  have h: "currentPage (state c') = Some v \<and>
          xhr args ''x-wp-totalpages'' = Some (dec tp) \<and> tp \<le> 2 ^ 53 \<and>
          xhr args ''x-wp-total'' = Some (dec tobj) \<and> tobj \<le> 2 ^ 53 \<longrightarrow>
            currentPage (state (snd (wrapped_success (success_opt opts) args c')))
              = Some (num_add v (Fin 1)) \<and>
            totalPages (state (snd (wrapped_success (success_opt opts) args c')))
              = Some (Fin (int tp)) \<and>
            totalObjects (state (snd (wrapped_success (success_opt opts) args c')))
              = Some (Fin (int tobj))"
    by (simp add: wrapped_success_state header_string_def parseInt10_dec_exact)
  have e: "currentPage (state c') = Some (Fin m) \<and> \<bar>m\<bar> < 2 ^ 53 \<longrightarrow>
            currentPage (state (snd (wrapped_success (success_opt opts) args c')))
              = Some (Fin (m + 1))"
    by (auto simp: wrapped_success_state to_double_exact)
  from a b u r h e show ?thesis by blast
qed

text \<open>The read of page 3 that is answered with 5 pages and 97 objects, and a read whose
  page key holds \<^verbatim>\<open>undefined\<close>, on a collection that had read page 3 before.\<close>

theorem sync_read_page_witness:
  "data_opt page3_options = Some [''orderby'' \<mapsto> JStr ''date'', ''page'' \<mapsto> JNum (Fin 3)] \<and>
   [''orderby'' \<mapsto> JStr ''date'', ''page'' \<mapsto> JNum (Fin 3)] ''page'' = Some (JNum (Fin 3)) \<and>
   JNum (Fin 3) \<noteq> JUndefined \<and> \<bar>3 :: int\<bar> < 2 ^ 53 \<and>
   currentPage (state (snd (sync example_s2n (Some ''abc'') keep_order ''read''
      (Some page3_options) fresh))) = Some (Fin 2) \<and>
   xhr response_5_97 ''x-wp-totalpages'' = Some (dec 5) \<and> (5 :: nat) \<le> 2 ^ 53 \<and>
   xhr response_5_97 ''x-wp-total'' = Some (dec 97) \<and> (97 :: nat) \<le> 2 ^ 53 \<and>
   \<bar>2 :: int\<bar> < 2 ^ 53 \<and>
   currentPage (state (snd (wrapped_success (success_opt page3_options) response_5_97
      (snd (sync example_s2n (Some ''abc'') keep_order ''read'' (Some page3_options) fresh)))))
     = Some (Fin 3) \<and>
   totalPages (state (snd (wrapped_success (success_opt page3_options) response_5_97
      (snd (sync example_s2n (Some ''abc'') keep_order ''read'' (Some page3_options) fresh)))))
     = Some (Fin 5) \<and>
   totalObjects (state (snd (wrapped_success (success_opt page3_options) response_5_97
      (snd (sync example_s2n (Some ''abc'') keep_order ''read'' (Some page3_options) fresh)))))
     = Some (Fin 97) \<and>
   data_opt undefined_page_options = Some [''page'' \<mapsto> JUndefined] \<and>
   [''page'' \<mapsto> JUndefined] ''page'' = Some JUndefined \<and>
   currentPage (state (snd (sync example_s2n None keep_order ''read''
      (Some undefined_page_options) page3))) = None \<and>
   totalPages (state (snd (sync example_s2n None keep_order ''read''
      (Some undefined_page_options) page3))) = None \<and>
   totalObjects (state (snd (sync example_s2n None keep_order ''read''
      (Some undefined_page_options) page3))) = None"
proof -
  let ?d = "[''orderby'' \<mapsto> JStr ''date'', ''page'' \<mapsto> JNum (Fin 3)]"
  let ?c1 = "snd (sync example_s2n (Some ''abc'') keep_order ''read'' (Some page3_options) fresh)"
  let ?c2 = "snd (sync example_s2n None keep_order ''read'' (Some undefined_page_options) page3)"
  have h1: "data_opt page3_options = Some ?d" by (simp add: page3_options_def)
  have h2: "?d ''page'' = Some (JNum (Fin 3))" by simp
  have h3: "JNum (Fin 3) \<noteq> JUndefined" by simp
  have b3: "\<bar>3 :: int\<bar> < 2 ^ 53" "\<bar>2 :: int\<bar> < 2 ^ 53" "(5 :: nat) \<le> 2 ^ 53" "(97 :: nat) \<le> 2 ^ 53"
    by simp_all
  have x1: "xhr response_5_97 ''x-wp-totalpages'' = Some (dec 5)"
    by (simp add: response_5_97_def headers_5_97_def dec_examples)
  have x2: "xhr response_5_97 ''x-wp-total'' = Some (dec 97)"
    by (simp add: response_5_97_def headers_5_97_def dec_examples)
  note thm1 = sync_read_page [OF h1 h2, where n = 3 and ?s2n = example_s2n
         and nonce = "Some ''abc''" and srt = keep_order and c = fresh and c' = ?c1
         and v = "Fin 2" and args = response_5_97 and tp = 5 and tobj = 97 and m = 2
         and req = \<open>\<lparr>req_method = ''read'', req_data = None, req_success = None, req_beforeSend = None\<rparr>\<close>]
  from thm1 b3 have a: "currentPage (state ?c1) = Some (Fin 2)"
    by (simp add: js_sub_def num_sub_def to_double_exact)
  from thm1 a x1 x2 b3
  have t: "totalPages (state (snd (wrapped_success (success_opt page3_options) response_5_97 ?c1)))
             = Some (Fin 5) \<and>
           totalObjects (state (snd (wrapped_success (success_opt page3_options) response_5_97 ?c1)))
             = Some (Fin 97) \<and>
           currentPage (state (snd (wrapped_success (success_opt page3_options) response_5_97 ?c1)))
             = Some (Fin 3)"
    by (simp add: to_double_exact)
  have g1: "data_opt undefined_page_options = Some [''page'' \<mapsto> JUndefined]"
    by (simp add: undefined_page_options_def)
  have g2: "[''page'' \<mapsto> JUndefined] ''page'' = Some JUndefined" by simp
  from sync_read_page [OF g1 g2, where n = 0 and ?s2n = example_s2n and nonce = None
         and srt = keep_order and c = page3 and c' = fresh and v = "Fin 0"
         and args = response_5_97 and tp = 5 and tobj = 97 and m = 0
         and req = \<open>\<lparr>req_method = ''read'', req_data = None, req_success = None, req_beforeSend = None\<rparr>\<close>]
  have u: "currentPage (state ?c2) = None \<and> totalPages (state ?c2) = None \<and>
           totalObjects (state ?c2) = None"
    by simp
  from h1 h2 h3 b3 a x1 x2 t g1 g2 u show ?thesis by simp
qed

text \<open>
  C1 as stated fails for a page key that holds \<^verbatim>\<open>undefined\<close>: the test
  \<^verbatim>\<open>'undefined' === typeof options.data.page\<close> takes it for a read without a page and
  resets \<^verbatim>\<open>currentPage\<close> to \<^verbatim>\<open>null\<close>, which is not \<^verbatim>\<open>undefined - 1\<close>.
\<close>

theorem sync_read_page_undefined_counterexample:
  "data_opt undefined_page_options = Some [''page'' \<mapsto> JUndefined] \<and>
   [''page'' \<mapsto> JUndefined] ''page'' = Some JUndefined \<and>
   currentPage (state (snd (sync example_s2n None keep_order ''read''
      (Some undefined_page_options) page3))) = None \<and>
   currentPage (state (snd (sync example_s2n None keep_order ''read''
      (Some undefined_page_options) page3))) \<noteq> Some (js_sub example_s2n JUndefined (JNum (Fin 1)))"
  by (simp add: sync_read_state undefined_page_options_def get_prop_def data_of_def)

text \<open>
  C2, as amended.  A read whose data (those of \<^verbatim>\<open>options\<close>, or the empty object that
  stands in for absent ones) have no page key leaves \<^verbatim>\<open>currentPage\<close>, \<^verbatim>\<open>totalPages\<close> and
  \<^verbatim>\<open>totalObjects\<close> at \<^verbatim>\<open>null\<close> when \<^verbatim>\<open>sync\<close> is left, and the request carries the wrapped
  success handler.  When that handler runs on a collection whose \<^verbatim>\<open>currentPage\<close> is still
  unset, as on the collection \<^verbatim>\<open>sync\<close> left, \<^verbatim>\<open>currentPage\<close> is 1 afterwards.  When a later
  read has set \<^verbatim>\<open>currentPage\<close> to a number \<open>v\<close> in between, the handler leaves \<open>v + 1\<close>.
\<close>

theorem sync_read_no_page:
  assumes "data_of (opts_of options) ''page'' = None"
  shows "currentPage (state (snd (sync s2n nonce srt ''read'' options c))) = None \<and>
         totalPages (state (snd (sync s2n nonce srt ''read'' options c))) = None \<and>
         totalObjects (state (snd (sync s2n nonce srt ''read'' options c))) = None \<and>
         (fst (sync s2n nonce srt ''read'' options c) = Returned req \<longrightarrow>
            req_success req = Some (WrappedSuccess (success_opt (opts_of options)))) \<and>
         currentPage (state (snd (wrapped_success (success_opt (opts_of options)) args
            (snd (sync s2n nonce srt ''read'' options c))))) = Some (Fin 1) \<and>
         (currentPage (state c') = None \<longrightarrow>
            currentPage (state (snd (wrapped_success (success_opt (opts_of options)) args c')))
              = Some (Fin 1)) \<and>
         (currentPage (state c') = Some v \<longrightarrow>
            currentPage (state (snd (wrapped_success (success_opt (opts_of options)) args c')))
              = Some (num_add v (Fin 1)))"
proof -
  let ?c1 = "snd (sync s2n nonce srt ''read'' options c)"
  let ?cb = "success_opt (opts_of options)"
  have pg: "get_prop (data_of (opts_of options)) ''page'' = JUndefined"
    using assms by (simp add: get_prop_def)
  have st: "currentPage (state ?c1) = None \<and> totalPages (state ?c1) = None \<and>
         totalObjects (state ?c1) = None"
    using pg by (simp add: sync_read_state Let_def)
  have rq: "fst (sync s2n nonce srt ''read'' options c) = Returned req \<longrightarrow>
            req_success req = Some (WrappedSuccess ?cb)"
    using sync_read_request [of s2n nonce srt options c req] by blast
  have h1: "currentPage (state (snd (wrapped_success ?cb args ?c1))) = Some (Fin 1)"
    using st by (simp add: wrapped_success_state)
  have h2: "currentPage (state c') = None \<longrightarrow>
            currentPage (state (snd (wrapped_success ?cb args c'))) = Some (Fin 1)"
    by (simp add: wrapped_success_state)
  have h3: "currentPage (state c') = Some v \<longrightarrow>
            currentPage (state (snd (wrapped_success ?cb args c'))) = Some (num_add v (Fin 1))"
    by (simp add: wrapped_success_state)
  from st rq h1 h2 h3 show ?thesis by blast
qed

text \<open>A read with a search and no page on a collection that had read page 3 before; its
  handler on the collection the read left, and on one that a later read of page 3 has set
  to 2.\<close>

theorem sync_read_no_page_witness:
  "data_of (opts_of (Some search_options)) ''page'' = None \<and>
   currentPage (state (snd (sync example_s2n None keep_order ''read''
       (Some search_options) page3))) = None \<and>
   totalPages (state (snd (sync example_s2n None keep_order ''read''
       (Some search_options) page3))) = None \<and>
   totalObjects (state (snd (sync example_s2n None keep_order ''read''
       (Some search_options) page3))) = None \<and>
   currentPage (state (snd (wrapped_success (Some 7) response_5_97
       (snd (sync example_s2n None keep_order ''read'' (Some search_options) page3)))))
     = Some (Fin 1) \<and>
   currentPage (state fresh) = None \<and>
   currentPage (state (snd (wrapped_success (Some 7) response_5_97 fresh))) = Some (Fin 1) \<and>
   currentPage (state page3) = Some (Fin 3) \<and>
   currentPage (state (snd (wrapped_success (Some 7) response_5_97 page3))) = Some (Fin 4)"
proof -
  have h: "data_of (opts_of (Some search_options)) ''page'' = None"
    by (simp add: data_of_def search_options_def)
  have s7: "success_opt (opts_of (Some search_options)) = Some 7"
    by (simp add: search_options_def)
  have f: "currentPage (state fresh) = None" by (simp add: fresh_def)
  have p: "currentPage (state page3) = Some (Fin 3)" by (simp add: page3_def)
  have n: "num_add (Fin 3) (Fin 1) = Fin 4" by (simp add: to_double_exact)
  from sync_read_no_page [OF h, where ?s2n = example_s2n and nonce = None
         and srt = keep_order and c = page3 and args = response_5_97 and c' = fresh
         and v = "Fin 0" and req = \<open>\<lparr>req_method = ''read'', req_data = None, req_success = None, req_beforeSend = None\<rparr>\<close>]
       sync_read_no_page [OF h, where ?s2n = example_s2n and nonce = None
         and srt = keep_order and c = page3 and args = response_5_97 and c' = page3
         and v = "Fin 3" and req = \<open>\<lparr>req_method = ''read'', req_data = None, req_success = None, req_beforeSend = None\<rparr>\<close>]
       h s7 f p n
  show ?thesis by simp
qed

text \<open>
  C2 as stated fails when another read is issued before the response arrives: the read
  without a page resets \<^verbatim>\<open>currentPage\<close>, a read of page 3 then sets it to 2, and the
  handler of the first read increments it to 3 instead of setting it to 1.
\<close>

theorem sync_read_no_page_overlap_counterexample:
  "data_of (opts_of None) ''page'' = None \<and>
   currentPage (state (snd (sync example_s2n None keep_order ''read'' None fresh))) = None \<and>
   currentPage (state (snd (sync example_s2n None keep_order ''read'' (Some page3_options)
      (snd (sync example_s2n None keep_order ''read'' None fresh))))) = Some (Fin 2) \<and>
   currentPage (state (snd (wrapped_success None response_5_97
      (snd (sync example_s2n None keep_order ''read'' (Some page3_options)
         (snd (sync example_s2n None keep_order ''read'' None fresh))))))) = Some (Fin 3)"
  by (simp add: wrapped_success_state sync_read_state Let_def data_of_def no_options_def
        page3_options_def get_prop_def js_sub_def num_sub_def to_double_exact)

text \<open>
  C3: \<^verbatim>\<open>hasMore()\<close> returns \<^verbatim>\<open>null\<close> as soon as one of \<^verbatim>\<open>currentPage\<close>,
  \<^verbatim>\<open>totalPages\<close>, \<^verbatim>\<open>totalObjects\<close> is unset.  When all three are set it returns a
  boolean, which is true exactly when \<^verbatim>\<open>currentPage < totalPages\<close>.
\<close>

theorem hasMore_unset_or_less:
  "(currentPage (state c) = None \<or> totalPages (state c) = None \<or> totalObjects (state c) = None
      \<longrightarrow> hasMore c = None) \<and>
   (\<forall>cp tp tobj.
      currentPage (state c) = Some cp \<and> totalPages (state c) = Some tp \<and>
      totalObjects (state c) = Some tobj
      \<longrightarrow> hasMore c = Some (num_lt cp tp) \<and> (hasMore c = Some True \<longleftrightarrow> num_lt cp tp))"
  by (auto simp: hasMore_def split: option.splits)

theorem hasMore_unset_or_less_witness:
  "currentPage (state fresh) = None \<and> hasMore fresh = None \<and>
   currentPage (state page3) = Some (Fin 3) \<and> totalPages (state page3) = Some (Fin 5) \<and>
   totalObjects (state page3) = Some (Fin 97) \<and> hasMore page3 = Some True"
  using hasMore_unset_or_less [of fresh] hasMore_unset_or_less [of page3]
  by (simp add: fresh_def page3_def)

text \<open>
  C4, as amended.  Take a call of \<^verbatim>\<open>more()\<close> whose merged data has no page key (so the
  caller's data has none either).  When \<^verbatim>\<open>hasMore()\<close> is true, \<^verbatim>\<open>currentPage\<close> is a
  number and the call delegates to \<^verbatim>\<open>fetch\<close> with the merged data and \<^verbatim>\<open>data.page = 2\<close> if
  \<^verbatim>\<open>currentPage <= 1\<close>, \<^verbatim>\<open>data.page = currentPage + 1\<close> otherwise (the sum of the language;
  \<open>n + 1\<close> for an integer \<open>n\<close> below 2^53).  When \<^verbatim>\<open>hasMore()\<close> is false, the call
  returns \<^verbatim>\<open>false\<close> and delegates nothing.
\<close>

theorem more_next_page:
  assumes "merged_data options c ''page'' = None"
  shows "(hasMore c = Some True \<longrightarrow>
            (\<exists>cp. currentPage (state c) = Some cp \<and>
                 more options c =
                   Fetch ((opts_of options)\<lparr>data_opt := Some ((merged_data options c)(''page'' \<mapsto>
                      JNum (if num_le cp (Fin 1) then Fin 2 else num_add cp (Fin 1))))\<rparr>))) \<and>
         (hasMore c = Some True \<and> currentPage (state c) = Some (Fin n) \<and> n < 2 ^ 53 \<longrightarrow>
            more options c =
              Fetch ((opts_of options)\<lparr>data_opt := Some ((merged_data options c)(''page'' \<mapsto>
                 JNum (Fin (if n \<le> 1 then 2 else n + 1))))\<rparr>)) \<and>
         (hasMore c = Some False \<longrightarrow> more options c = ReturnedFalse)"
proof (intro conjI impI)
  assume h: "hasMore c = Some True"
  then obtain cp where cp: "currentPage (state c) = Some cp"
    using hasMore_True by blast
  show "\<exists>cp. currentPage (state c) = Some cp \<and>
                 more options c =
                   Fetch ((opts_of options)\<lparr>data_opt := Some ((merged_data options c)(''page'' \<mapsto>
                      JNum (if num_le cp (Fin 1) then Fin 2 else num_add cp (Fin 1))))\<rparr>)"
    using more_no_page [OF assms] h cp by simp
next
  assume h: "hasMore c = Some True \<and> currentPage (state c) = Some (Fin n) \<and> n < 2 ^ 53"
  show "more options c =
              Fetch ((opts_of options)\<lparr>data_opt := Some ((merged_data options c)(''page'' \<mapsto>
                 JNum (Fin (if n \<le> 1 then 2 else n + 1))))\<rparr>)"
  proof (cases "n \<le> 1")
    case True
    with h show ?thesis using more_no_page [OF assms] by simp
  next
    case False
    with h have "\<bar>n + 1\<bar> \<le> 2 ^ 53" by simp
    then have "num_add (Fin n) (Fin 1) = Fin (n + 1)" by (rule num_add_exact)
    with h False show ?thesis using more_no_page [OF assms] by simp
  qed
next
  assume "hasMore c = Some False"
  then show "more options c = ReturnedFalse"
    using more_no_page [OF assms] by simp
qed

text \<open>After page 3 of 5 the next request is for page 4, after page 1 for page 2 with the
  stored parameters, and after page 5 of 5 there is none.\<close>

theorem more_next_page_witness:
  "merged_data None page3 ''page'' = None \<and> hasMore page3 = Some True \<and>
   currentPage (state page3) = Some (Fin 3) \<and> (3 :: int) < 2 ^ 53 \<and>
   more None page3 = Fetch \<lparr>data_opt = Some [''page'' \<mapsto> JNum (Fin 4)], success_opt = None,
                             beforeSend_opt = None\<rparr> \<and>
   merged_data None page1 ''page'' = None \<and> hasMore page1 = Some True \<and>
   currentPage (state page1) = Some (Fin 1) \<and> (1 :: int) < 2 ^ 53 \<and>
   more None page1 = Fetch \<lparr>data_opt = Some [''search'' \<mapsto> JStr ''tea'', ''page'' \<mapsto> JNum (Fin 2)],
                             success_opt = None, beforeSend_opt = None\<rparr> \<and>
   merged_data None page5 ''page'' = None \<and> hasMore page5 = Some False \<and>
   more None page5 = ReturnedFalse"
proof -
  have m3: "merged_data None page3 ''page'' = None"
    by (simp add: merged_data_def page3_def fresh_def extend_obj_def data_of_def no_options_def)
  have m1: "merged_data None page1 ''page'' = None"
    by (simp add: merged_data_def page1_def fresh_def extend_obj_def data_of_def no_options_def)
  have m5: "merged_data None page5 ''page'' = None"
    by (simp add: merged_data_def page5_def fresh_def extend_obj_def data_of_def no_options_def)
  have h3: "hasMore page3 = Some True" by (simp add: hasMore_def page3_def fresh_def)
  have h1: "hasMore page1 = Some True" by (simp add: hasMore_def page1_def fresh_def)
  have h5: "hasMore page5 = Some False" by (simp add: hasMore_def page5_def fresh_def)
  have d3: "merged_data None page3 = Map.empty"
    by (simp add: merged_data_def page3_def fresh_def extend_obj_def data_of_def no_options_def)
  have d1: "merged_data None page1 = [''search'' \<mapsto> JStr ''tea'']"
    by (simp add: merged_data_def page1_def fresh_def extend_obj_def data_of_def no_options_def)
  have c3: "currentPage (state page3) = Some (Fin 3)" by (simp add: page3_def)
  have c1: "currentPage (state page1) = Some (Fin 1)" by (simp add: page1_def)
  have b: "(3 :: int) < 2 ^ 53" "(1 :: int) < 2 ^ 53" by simp_all
  from more_next_page [OF m3, where n = 3] h3 c3 d3 b
  have r3: "more None page3 = Fetch \<lparr>data_opt = Some [''page'' \<mapsto> JNum (Fin 4)], success_opt = None,
                             beforeSend_opt = None\<rparr>"
    by (simp add: no_options_def to_double_exact)
  from more_next_page [OF m1, where n = 1] h1 c1 d1 b
  have r1: "more None page1 = Fetch \<lparr>data_opt = Some [''search'' \<mapsto> JStr ''tea'', ''page'' \<mapsto> JNum (Fin 2)],
                             success_opt = None, beforeSend_opt = None\<rparr>"
    by (simp add: no_options_def to_double_exact)
  from more_next_page [OF m5, where n = 5] h5
  have r5: "more None page5 = ReturnedFalse" by simp
  from m3 m1 m5 h3 h1 h5 c3 c1 b r3 r1 r5 show ?thesis by simp
qed

text \<open>
  C4 as stated fails where \<^verbatim>\<open>hasMore()\<close> is not true: on the last page, and with
  \<^verbatim>\<open>currentPage\<close> unset, \<^verbatim>\<open>more()\<close> returns \<^verbatim>\<open>false\<close> and no fetch is issued, with page
  6, with page 2 or with any other page.
\<close>

theorem more_unset_page_counterexample:
  "merged_data None page5 ''page'' = None \<and> currentPage (state page5) = Some (Fin 5) \<and>
   more None page5 = ReturnedFalse \<and>
   merged_data None fresh ''page'' = None \<and> currentPage (state fresh) = None \<and>
   more None fresh = ReturnedFalse"
  by (simp add: merged_data_def more_def hasMore_def fresh_def page5_def extend_obj_def
        data_of_def no_options_def get_prop_def)

text \<open>
  C5: when \<^verbatim>\<open>currentPage\<close> is unset and the merged data has no page key,
  \<^verbatim>\<open>hasMore()\<close> is \<^verbatim>\<open>null\<close> and \<^verbatim>\<open>more()\<close> returns \<^verbatim>\<open>false\<close> without delegating to
  \<^verbatim>\<open>fetch\<close>: the branch that would ask for page 2 is not reached.
\<close>

theorem more_unset_currentPage:
  assumes "currentPage (state c) = None" and "merged_data options c ''page'' = None"
  shows "hasMore c = None \<and> more options c = ReturnedFalse"
proof -
  have h: "hasMore c = None" using assms(1) by (simp add: hasMore_def split: option.splits)
  then show ?thesis using more_no_page [OF assms(2)] by simp
qed

theorem more_unset_currentPage_witness:
  "currentPage (state fresh) = None \<and> merged_data (Some search_options) fresh ''page'' = None \<and>
   hasMore fresh = None \<and> more (Some search_options) fresh = ReturnedFalse"
proof -
  have a: "currentPage (state fresh) = None" by (simp add: fresh_def)
  have b: "merged_data (Some search_options) fresh ''page'' = None"
    by (simp add: merged_data_def fresh_def extend_obj_def data_of_def search_options_def)
  from more_unset_currentPage [OF a b] a b show ?thesis by simp
qed

text \<open>
  C6 at a failing input: \<^verbatim>\<open>initialize\<close> copies the caller's initial data as it is, so a
  page key in it stays in the stored parameters.
\<close>

theorem initialize_keeps_page_key:
  "data (state (snd (initialize keep_order fresh [] (Some page2_init_options)))) ''page''
     = Some (JNum (Fin 2))"
  by (simp add: initialize_def initSortOnChange_def Let_def page2_init_options_def fresh_def
        extend_obj_def get_prop_def)

text \<open>The read path does keep the page key out of the stored parameters: after every
  read, they are the caller's data without it.\<close>

theorem sync_read_data_no_page:
  "data (state (snd (sync s2n nonce srt ''read'' options c))) = (data_of (opts_of options))(''page'' := None)"
  by (simp add: sync_read_state Let_def)

text \<open>
  C7 at a failing input: on a collection that was constructed with a page key in its
  initial data, the stored page overwrites the page the caller of \<^verbatim>\<open>more()\<close> supplies.
\<close>

theorem more_stored_page_overwrites:
  "data_opt page5_options = Some [''page'' \<mapsto> JNum (Fin 5)] \<and>
   more (Some page5_options) (snd (initialize keep_order fresh [] (Some page2_init_options)))
     = Fetch \<lparr>data_opt = Some [''page'' \<mapsto> JNum (Fin 2), ''search'' \<mapsto> JStr ''tea''],
              success_opt = None, beforeSend_opt = None\<rparr>"
  by (simp add: initialize_def initSortOnChange_def Let_def page2_init_options_def fresh_def
        extend_obj_def get_prop_def more_def merged_data_def page5_options_def data_of_def
        fun_upd_twist)

text \<open>When the stored parameters have no page key, the merge is as C7 says: the data of
  the fetch agree, off the page key, with the stored parameters where these have the key
  and with the caller's data elsewhere, and a page the caller supplies is sent as it is.\<close>

lemma more_merge:
  assumes "more options c = Fetch opts'"
  shows "\<exists>d. data_opt opts' = Some d \<and>
             (\<forall>k. k \<noteq> ''page'' \<longrightarrow>
                  d k = (case data (state c) k of
                           Some v \<Rightarrow> Some v
                         | None \<Rightarrow> data_of (opts_of options) k))"
  using assms
  by (auto simp: more_def merged_data_def Let_def extend_obj_def map_add_def
           split: if_splits option.splits)

theorem more_caller_page_survives:
  assumes "data_of (opts_of options) ''page'' = Some p" and "p \<noteq> JUndefined"
      and "data (state c) ''page'' = None"
  shows "more options c = Fetch ((opts_of options)\<lparr>data_opt := Some (merged_data options c)\<rparr>) \<and>
         merged_data options c ''page'' = Some p"
  using assms
  by (auto simp: more_def Let_def extend_obj_def merged_data_def map_add_def get_prop_def)

theorem more_caller_page_survives_witness:
  "data_of (opts_of (Some page5_options)) ''page'' = Some (JNum (Fin 5)) \<and>
   JNum (Fin 5) \<noteq> JUndefined \<and> data (state page1) ''page'' = None \<and>
   more (Some page5_options) page1 =
     Fetch (page5_options\<lparr>data_opt := Some (merged_data (Some page5_options) page1)\<rparr>) \<and>
   merged_data (Some page5_options) page1 ''page'' = Some (JNum (Fin 5)) \<and>
   merged_data (Some page5_options) page1 ''search'' = Some (JStr ''tea'')"
proof -
  have a: "data_of (opts_of (Some page5_options)) ''page'' = Some (JNum (Fin 5))"
    by (simp add: data_of_def page5_options_def)
  have b: "JNum (Fin 5) \<noteq> JUndefined" by simp
  have c: "data (state page1) ''page'' = None" by (simp add: page1_def)
  have d: "merged_data (Some page5_options) page1 ''search'' = Some (JStr ''tea'')"
    by (simp add: merged_data_def extend_obj_def page1_def)
  from more_caller_page_survives [OF a b c] a b c d show ?thesis by simp
qed

text \<open>
  C8: when \<^verbatim>\<open>_initSortOnChange\<close> has completed before, or the stored parameters have no
  \<^verbatim>\<open>orderby\<close> key, the call returns \<^verbatim>\<open>false\<close> and leaves the collection as it was,
  whatever \<^verbatim>\<open>sort\<close> would do: no comparator is installed, nothing is subscribed and
  nothing is sorted.  A call that returned \<^verbatim>\<open>true\<close> has set the flag, and the next call on
  the collection it left returns \<^verbatim>\<open>false\<close> and changes nothing.
\<close>

theorem initSortOnChange_idempotent:
  "(initializedSortOnChange c \<or> data (state c) ''orderby'' = None
      \<longrightarrow> initSortOnChange srt c = (Returned False, c)) \<and>
   (initSortOnChange srt c = (Returned True, c')
      \<longrightarrow> initializedSortOnChange c' \<and> initSortOnChange srt' c' = (Returned False, c'))"
  by (auto simp: initSortOnChange_def Let_def get_prop_def split: if_splits sum.splits)

theorem initSortOnChange_idempotent_witness:
  "data (state fresh) ''orderby'' = None \<and>
   initSortOnChange keep_order fresh = (Returned False, fresh) \<and>
   initSortOnChange keep_order by_date = (Returned True, by_date_armed) \<and>
   initializedSortOnChange by_date_armed \<and>
   initSortOnChange keep_order by_date_armed = (Returned False, by_date_armed)"
proof -
  have a: "data (state fresh) ''orderby'' = None" by (simp add: fresh_def)
  have b: "initSortOnChange keep_order by_date = (Returned True, by_date_armed)"
    by (simp add: initSortOnChange_def by_date_def by_date_armed_def fresh_def keep_order_def
          get_prop_def Let_def)
  from initSortOnChange_idempotent [of fresh keep_order] a
  have c: "initSortOnChange keep_order fresh = (Returned False, fresh)" by blast
  from initSortOnChange_idempotent [of by_date keep_order by_date_armed keep_order] b
  have d: "initializedSortOnChange by_date_armed \<and>
           initSortOnChange keep_order by_date_armed = (Returned False, by_date_armed)" by blast
  from a b c d show ?thesis by simp
qed




text \<open>
  C10, as amended.  When the response has no \<^verbatim>\<open>x-wp-totalpages\<close> header, or the header
  has no numeric prefix, the wrapped success handler stores not-a-number in
  \<^verbatim>\<open>totalPages\<close>; a header with a numeric prefix is stored as a number other than
  not-a-number.  Likewise for \<^verbatim>\<open>x-wp-total\<close> and \<^verbatim>\<open>totalObjects\<close>.  The handler has no
  raising step.  In every case it sets \<^verbatim>\<open>currentPage\<close> to 1 when it was unset and adds 1
  to it otherwise, and it ends by calling the caller's success callback, when there is
  one, with the arguments it received.
\<close>

theorem wrapped_success_malformed_headers:
  "(xhr args ''x-wp-totalpages'' = None \<longrightarrow>
      totalPages (state (snd (wrapped_success cb args c))) = Some NaN) \<and>
   (xhr args ''x-wp-totalpages'' = Some s \<and> \<not> numeric_prefix s \<longrightarrow>
      totalPages (state (snd (wrapped_success cb args c))) = Some NaN) \<and>
   (xhr args ''x-wp-totalpages'' = Some s \<and> numeric_prefix s \<longrightarrow>
      totalPages (state (snd (wrapped_success cb args c))) = Some (parseInt10 s) \<and>
      parseInt10 s \<noteq> NaN) \<and>
   (xhr args ''x-wp-total'' = None \<longrightarrow>
      totalObjects (state (snd (wrapped_success cb args c))) = Some NaN) \<and>
   (xhr args ''x-wp-total'' = Some t \<and> \<not> numeric_prefix t \<longrightarrow>
      totalObjects (state (snd (wrapped_success cb args c))) = Some NaN) \<and>
   (xhr args ''x-wp-total'' = Some t \<and> numeric_prefix t \<longrightarrow>
      totalObjects (state (snd (wrapped_success cb args c))) = Some (parseInt10 t) \<and>
      parseInt10 t \<noteq> NaN) \<and>
   currentPage (state (snd (wrapped_success cb args c))) =
      Some (case currentPage (state c) of None \<Rightarrow> Fin 1 | Some v \<Rightarrow> num_add v (Fin 1)) \<and>
   fst (wrapped_success (Some f) args c) = Some (f, args) \<and>
   fst (wrapped_success None args c) = None"
  using parseInt10_NaN_iff numeric_prefix_null
  by (simp add: wrapped_success_state wrapped_success_call header_string_def)

text \<open>A response without \<^verbatim>\<open>x-wp-totalpages\<close> and with a word for \<^verbatim>\<open>x-wp-total\<close>, and one
  whose \<^verbatim>\<open>x-wp-totalpages\<close> is \<^verbatim>\<open>5abc\<close> and whose \<^verbatim>\<open>x-wp-total\<close> is \<^verbatim>\<open>97\<close>.\<close>

theorem wrapped_success_malformed_headers_witness:
  "xhr response_bad ''x-wp-totalpages'' = None \<and>
   xhr response_bad ''x-wp-total'' = Some ''many'' \<and> \<not> numeric_prefix ''many'' \<and>
   totalPages (state (snd (wrapped_success (Some 7) response_bad page3))) = Some NaN \<and>
   totalObjects (state (snd (wrapped_success (Some 7) response_bad page3))) = Some NaN \<and>
   currentPage (state (snd (wrapped_success (Some 7) response_bad page3))) = Some (Fin 4) \<and>
   fst (wrapped_success (Some 7) response_bad page3) = Some (7, response_bad) \<and>
   xhr response_5abc ''x-wp-totalpages'' = Some ''5abc'' \<and> numeric_prefix ''5abc'' \<and>
   xhr response_5abc ''x-wp-total'' = Some ''97'' \<and> numeric_prefix ''97'' \<and>
   totalPages (state (snd (wrapped_success None response_5abc fresh))) = Some (Fin 5) \<and>
   totalObjects (state (snd (wrapped_success None response_5abc fresh))) = Some (Fin 97) \<and>
   currentPage (state (snd (wrapped_success None response_5abc fresh))) = Some (Fin 1) \<and>
   fst (wrapped_success None response_5abc fresh) = None"
proof -
  have a: "xhr response_bad ''x-wp-totalpages'' = None"
    by (simp add: response_bad_def headers_bad_def)
  have b: "xhr response_bad ''x-wp-total'' = Some ''many''"
    by (simp add: response_bad_def headers_bad_def)
  have c: "\<not> numeric_prefix ''many''"
    by (simp add: numeric_prefix_def is_ws_def is_digit_def)
  have d: "currentPage (state page3) = Some (Fin 3)" by (simp add: page3_def)
  have n: "num_add (Fin 3) (Fin 1) = Fin 4" by (simp add: to_double_exact)
  have a': "xhr response_5abc ''x-wp-totalpages'' = Some ''5abc''"
    by (simp add: response_5abc_def headers_5abc_def)
  have b': "xhr response_5abc ''x-wp-total'' = Some ''97''"
    by (simp add: response_5abc_def headers_5abc_def)
  have c': "numeric_prefix ''5abc''" "numeric_prefix ''97''"
    by (simp_all add: numeric_prefix_def is_ws_def is_digit_def)
  have p: "parseInt10 ''5abc'' = Fin 5" "parseInt10 ''97'' = Fin 97"
    by (simp_all add: parseInt10_def is_ws_def is_digit_def digits_value_def digit_val_def
          to_double_exact)
  have d': "currentPage (state fresh) = None" by (simp add: fresh_def)
  from wrapped_success_malformed_headers
         [where args = response_bad and cb = "Some 7" and c = page3 and s = "''many''"
            and t = "''many''" and f = 7] a b c d n
  have w1: "totalPages (state (snd (wrapped_success (Some 7) response_bad page3))) = Some NaN \<and>
   totalObjects (state (snd (wrapped_success (Some 7) response_bad page3))) = Some NaN \<and>
   currentPage (state (snd (wrapped_success (Some 7) response_bad page3))) = Some (Fin 4) \<and>
   fst (wrapped_success (Some 7) response_bad page3) = Some (7, response_bad)"
    by simp
  from wrapped_success_malformed_headers
         [where args = response_5abc and cb = None and c = fresh and s = "''5abc''"
            and t = "''97''" and f = 0] a' b' c' p d'
  have w2: "totalPages (state (snd (wrapped_success None response_5abc fresh))) = Some (Fin 5) \<and>
   totalObjects (state (snd (wrapped_success None response_5abc fresh))) = Some (Fin 97) \<and>
   currentPage (state (snd (wrapped_success None response_5abc fresh))) = Some (Fin 1) \<and>
   fst (wrapped_success None response_5abc fresh) = None"
    by simp
  from a b c a' b' c' w1 w2 show ?thesis by simp
qed

text \<open>
  C10 as stated fails for a header that is not a number but starts with digits:
  \<^verbatim>\<open>parseInt\<close> reads the digits and ignores the rest, so \<^verbatim>\<open>5abc\<close> is stored as 5.
\<close>

theorem wrapped_success_digits_prefix_counterexample:
  "xhr response_5abc ''x-wp-totalpages'' = Some ''5abc'' \<and> \<not> list_all is_digit ''5abc'' \<and>
   totalPages (state (snd (wrapped_success None response_5abc fresh))) = Some (Fin 5) \<and>
   Fin 5 \<noteq> NaN"
  by (simp add: wrapped_success_state response_5abc_def headers_5abc_def header_string_def
        parseInt10_def is_ws_def is_digit_def digits_value_def digit_val_def to_double_exact)

end
